theory Spec2Isabelle
  imports Complex_Main "HOL-Library.Log_Nat"
begin

section \<open>Python values, exceptions and the operating system\<close>

text \<open>
  Every exception of the model is an instance of Python's \<open>Exception\<close> class, which is
  what the handlers \<open>except Exception\<close> of the sources catch. \<open>OSError\<close> stands for the
  class and its subclasses (\<open>FileNotFoundError\<close>, \<open>PermissionError\<close>, ...), the only
  distinction a handler of the sources makes (\<open>except OSError\<close> in \<open>get_file_size\<close>).
  \<open>SystemExit\<close> is not an \<open>Exception\<close>: \<open>sys.exit\<close> is modelled by the way a command
  ends, below.
\<close>

datatype exn =
    OSError
  | ValueError
  | TypeError
  | AttributeError string
  | NameError string
  | OverflowError
  | RuntimeError string

text \<open>
  A Python \<open>str\<close> is a list of code points; the model keeps the code points below 256
  (one \<open>char\<close> each), so \<open>length\<close> counts characters as \<open>len\<close> does. An argument
  that the sources use as a path is either such a string or a \<open>pathlib.Path\<close> object:
  \<open>convert\<close> and \<open>batch\<close> build \<open>Path\<close> objects and pass them on.
\<close>

datatype pathlike = Str string | PathObj string

fun fspath :: "pathlike \<Rightarrow> string" where
  "fspath (Str s) = s"
| "fspath (PathObj s) = s"

text \<open>
  A PDF document as PyMuPDF (\<open>fitz\<close>) hands it out. \<open>len(doc)\<close> is the number of
  pages; \<open>doc[i]\<close> loads a page or raises; \<open>page.get_text()\<close> and \<open>page.get_images()\<close>
  return or raise; \<open>doc.metadata\<close> is a dictionary, or \<open>None\<close> for a document that
  has none; \<open>doc.close()\<close> may raise.
\<close>

datatype pyval = PyNone | PyBool bool | PyNumber int | PyStr string

record page =
  page_get_text :: "exn + string"
  page_get_images :: "exn + nat list"

record document =
  doc_pages :: "(exn + page) list"
  doc_metadata :: "(string \<times> pyval) list option"
  doc_close :: "exn option"

text \<open>
  The world outside the program: \<open>os.path.exists\<close> answers a boolean (it never raises
  on a string or a path), \<open>os.path.getsize\<close> returns the size in bytes or raises. It
  raises \<open>OSError\<close> for a missing or unreadable file, and \<open>ValueError\<close> for a path
  with an embedded null character. \<open>fitz.open\<close> returns a document or raises.
\<close>

record os_env =
  os_path_exists :: "string \<Rightarrow> bool"
  os_path_getsize :: "string \<Rightarrow> exn + nat"
  fitz_open :: "string \<Rightarrow> exn + document"

subsection \<open>String methods\<close>

text \<open>
  \<open>str.lower\<close> on code points below 256: the letters A to Z, and the capital letters
  of Latin-1 (\<open>0xC0\<close> to \<open>0xDE\<close> without the multiplication sign \<open>0xD7\<close>), each
  mapped 32 code points up; every other character is unchanged.
\<close>

definition upper_chars :: string where
  "upper_chars =
     ''ABCDEFGHIJKLMNOPQRSTUVWXYZ'' @
     [
      CHR 0xC0, CHR 0xC1, CHR 0xC2, CHR 0xC3, CHR 0xC4, CHR 0xC5, CHR 0xC6, CHR 0xC7,
      CHR 0xC8, CHR 0xC9, CHR 0xCA, CHR 0xCB, CHR 0xCC, CHR 0xCD, CHR 0xCE, CHR 0xCF,
      CHR 0xD0, CHR 0xD1, CHR 0xD2, CHR 0xD3, CHR 0xD4, CHR 0xD5, CHR 0xD6, CHR 0xD8,
      CHR 0xD9, CHR 0xDA, CHR 0xDB, CHR 0xDC, CHR 0xDD, CHR 0xDE]"

definition lower_chars :: string where
  "lower_chars =
     ''abcdefghijklmnopqrstuvwxyz'' @
     [
      CHR 0xE0, CHR 0xE1, CHR 0xE2, CHR 0xE3, CHR 0xE4, CHR 0xE5, CHR 0xE6, CHR 0xE7,
      CHR 0xE8, CHR 0xE9, CHR 0xEA, CHR 0xEB, CHR 0xEC, CHR 0xED, CHR 0xEE, CHR 0xEF,
      CHR 0xF0, CHR 0xF1, CHR 0xF2, CHR 0xF3, CHR 0xF4, CHR 0xF5, CHR 0xF6, CHR 0xF8,
      CHR 0xF9, CHR 0xFA, CHR 0xFB, CHR 0xFC, CHR 0xFD, CHR 0xFE]"

definition char_lower :: "char \<Rightarrow> char" where
  "char_lower c = (case map_of (zip upper_chars lower_chars) c of Some l \<Rightarrow> l | None \<Rightarrow> c)"

definition str_lower :: "string \<Rightarrow> string" where
  "str_lower s = map char_lower s"

definition str_endswith :: "string \<Rightarrow> string \<Rightarrow> bool" where
  "str_endswith s suffix =
     (length suffix \<le> length s \<and> drop (length s - length suffix) s = suffix)"

definition str_startswith :: "string \<Rightarrow> string \<Rightarrow> bool" where
  "str_startswith s prefix = (take (length prefix) s = prefix)"

text \<open>\<open>str.isspace\<close> on one code point below 256.\<close>

definition is_space :: "char \<Rightarrow> bool" where
  "is_space c =
     (let n = (of_char c :: nat)
      in (9 \<le> n \<and> n \<le> 13) \<or> (28 \<le> n \<and> n \<le> 32) \<or> n = 133 \<or> n = 160)"

definition str_strip :: "string \<Rightarrow> string" where
  "str_strip s = rev (dropWhile is_space (rev (dropWhile is_space s)))"

text \<open>\<open>s.replace(old, new)\<close> for one-character \<open>old\<close> and \<open>new\<close>.\<close>

definition str_replace :: "string \<Rightarrow> char \<Rightarrow> char \<Rightarrow> string" where
  "str_replace s old new = map (\<lambda>c. if c = old then new else c) s"

text \<open>
  The method call \<open>file_path.lower()\<close>: a \<open>str\<close> has the method, a \<open>pathlib.Path\<close>
  has no attribute \<open>lower\<close>, and the attribute lookup raises \<open>AttributeError\<close>.
\<close>

fun method_lower :: "pathlike \<Rightarrow> exn + string" where
  "method_lower (Str s) = Inr (str_lower s)"
| "method_lower (PathObj p) = Inl (AttributeError ''lower'')"

section \<open>utils/helpers.py\<close>

subsection \<open>validate_file\<close>

text \<open>
  The two branches that print an error return \<open>False\<close>; console output is not part
  of the result and is left out of this function's model.
\<close>

definition validate_file :: "os_env \<Rightarrow> pathlike \<Rightarrow> string \<Rightarrow> exn + bool" where
  "validate_file env file_path extension =
     (if \<not> os_path_exists env (fspath file_path) then Inr False
      else (case method_lower file_path of
              Inl e \<Rightarrow> Inl e
            | Inr lowered \<Rightarrow>
                if \<not> str_endswith lowered (str_lower extension) then Inr False
                else Inr True))"

subsection \<open>sanitize_filename\<close>

definition invalid_chars :: string where
  "invalid_chars =
     [CHR ''<'', CHR ''>'', CHR '':'', CHR 0x22, CHR ''/'', CHR 0x5C, CHR ''|'', CHR ''?'',
      CHR ''*'']"

text \<open>
  The body up to the last statement: the loop over \<open>invalid_chars\<close> rebinding
  \<open>filename\<close>, the \<open>strip\<close>, and the guarded slice \<open>filename[:200]\<close>.
\<close>

definition sanitize_body :: "string \<Rightarrow> string" where
  "sanitize_body filename =
     (let filename1 = fold (\<lambda>char fn. str_replace fn char (CHR ''_'')) invalid_chars filename;
          filename2 = str_strip filename1
      in if length filename2 > 200 then take 200 filename2 else filename2)"

text \<open>
  Reading a name: the local scope of the call, then the module's globals and the
  builtins. The globals of \<open>helpers.py\<close> are its imports (\<open>os\<close>, \<open>sys\<close>, \<open>Path\<close>,
  \<open>List\<close>, \<open>Tuple\<close>, \<open>Optional\<close>, \<open>fitz\<close>, \<open>Fore\<close>, \<open>Style\<close>) and its functions; a
  name found nowhere raises \<open>NameError\<close>. Only the string-valued bindings are kept.
\<close>

definition read_name :: "(string \<times> string) list \<Rightarrow> string \<Rightarrow> exn + string" where
  "read_name scope name =
     (case map_of scope name of Some v \<Rightarrow> Inr v | None \<Rightarrow> Inl (NameError name))"

text \<open>
  The last statement of the function is \<open>return filenamev\<close>. The locals at that point
  are \<open>filename\<close>, \<open>invalid_chars\<close> and the loop variable \<open>char\<close>.
\<close>

definition sanitize_filename :: "string \<Rightarrow> exn + string" where
  "sanitize_filename filename =
     read_name
       [(''filename'', sanitize_body filename),
        (''invalid_chars'', invalid_chars),
        (''char'', [last invalid_chars])]
       ''filenamev''"

text \<open>
  What the specification asks of \<open>sanitize_filename\<close>, in its words: replace each of
  the nine characters by an underscore, trim surrounding whitespace, truncate to 200
  characters.
\<close>

definition sanitize_filename_spec :: "string \<Rightarrow> string" where
  "sanitize_filename_spec filename =
     take 200 (str_strip (map (\<lambda>c. if c \<in> set invalid_chars then CHR ''_'' else c) filename))"

subsection \<open>get_file_size\<close>

text \<open>
  Numbers. \<open>os.path.getsize\<close> returns an \<open>int\<close>; \<open>size_bytes /= 1024.0\<close> makes it a
  \<open>float\<close>. A float is modelled by the rational number it holds. Converting an
  \<open>int\<close> to a float rounds it to 53 significant bits, ties to even, and raises
  \<open>OverflowError\<close> when the rounded value does not fit a double. Dividing a float by
  \<open>1024.0\<close> only changes its exponent, so the quotient is exact (the floats divided here
  are at least 1024, far from underflow).
\<close>

datatype pynum = PyInt nat | PyFloat rat

definition round53 :: "nat \<Rightarrow> nat" where
  "round53 n =
     (if n < 2 ^ 53 then n
      else (let e = floorlog 2 n - 53;
                q = n div 2 ^ e;
                r = n mod 2 ^ e
            in if 2 * r > 2 ^ e \<or> (2 * r = 2 ^ e \<and> odd q) then (q + 1) * 2 ^ e
               else q * 2 ^ e))"

definition int_to_float :: "nat \<Rightarrow> exn + rat" where
  "int_to_float n =
     (if round53 n \<ge> 2 ^ 1024 then Inl OverflowError else Inr (of_nat (round53 n)))"

fun to_float :: "pynum \<Rightarrow> exn + rat" where
  "to_float (PyInt n) = int_to_float n"
| "to_float (PyFloat v) = Inr v"

text \<open>\<open>size_bytes < 1024.0\<close>: Python compares an \<open>int\<close> with a float exactly.\<close>

fun lt_1024 :: "pynum \<Rightarrow> bool" where
  "lt_1024 (PyInt n) = (n < 1024)"
| "lt_1024 (PyFloat v) = (v < 1024)"

definition div_1024 :: "pynum \<Rightarrow> exn + pynum" where
  "div_1024 x = (case to_float x of Inl e \<Rightarrow> Inl e | Inr v \<Rightarrow> Inr (PyFloat (v / 1024)))"

text \<open>Decimal digits of a natural number, as \<open>str\<close> prints them.\<close>

definition digit_char :: "nat \<Rightarrow> char" where
  "digit_char d = ''0123456789'' ! d"

function string_of_nat :: "nat \<Rightarrow> string" where
  "string_of_nat n =
     (if n < 10 then [digit_char n] else string_of_nat (n div 10) @ [digit_char (n mod 10)])"
  by pat_completeness auto
termination
  by (relation "measure (\<lambda>n. n)") auto

declare string_of_nat.simps [simp del]

text \<open>
  The format specification \<open>.1f\<close> on a non-negative float: the decimal expansion with
  one digit after the point that is nearest to the float's exact value, a tie going to
  the even digit. \<open>tenths v\<close> is that expansion counted in tenths.
\<close>

definition tenths :: "rat \<Rightarrow> nat" where
  "tenths v =
     (let f = \<lfloor>10 * v\<rfloor>;
          d = 10 * v - of_int f
      in nat (if d > 1 / 2 \<or> (d = 1 / 2 \<and> odd f) then f + 1 else f))"

definition format_1f :: "rat \<Rightarrow> string" where
  "format_1f v = string_of_nat (tenths v div 10) @ ''.'' @ string_of_nat (tenths v mod 10)"

text \<open>The f-string \<open>f"{size_bytes:.1f} {unit}"\<close>; an \<open>int\<close> is converted to a float first.\<close>

definition format_size :: "pynum \<Rightarrow> string \<Rightarrow> exn + string" where
  "format_size size_bytes unit =
     (case to_float size_bytes of
        Inl e \<Rightarrow> Inl e
      | Inr v \<Rightarrow> Inr (format_1f v @ '' '' @ unit))"

text \<open>The \<open>for unit in [...]\<close> loop, and the statement after it when the list is used up.\<close>

fun size_loop :: "string list \<Rightarrow> pynum \<Rightarrow> exn + string" where
  "size_loop [] size_bytes = format_size size_bytes ''TB''"
| "size_loop (unit # units) size_bytes =
     (if lt_1024 size_bytes then format_size size_bytes unit
      else (case div_1024 size_bytes of
              Inl e \<Rightarrow> Inl e
            | Inr size_bytes' \<Rightarrow> size_loop units size_bytes'))"

text \<open>\<open>except OSError\<close> turns an \<open>OSError\<close> of the body into the string \<open>Desconocido\<close>.\<close>

definition except_OSError :: "exn + string \<Rightarrow> exn + string" where
  "except_OSError r =
     (case r of Inl e \<Rightarrow> (if e = OSError then Inr ''Desconocido'' else Inl e) | Inr s \<Rightarrow> Inr s)"

definition get_file_size :: "os_env \<Rightarrow> pathlike \<Rightarrow> exn + string" where
  "get_file_size env file_path =
     except_OSError
       (case os_path_getsize env (fspath file_path) of
          Inl e \<Rightarrow> Inl e
        | Inr size_bytes \<Rightarrow> size_loop [''B'', ''KB'', ''MB'', ''GB''] (PyInt size_bytes))"

text \<open>
  The specification's unit: the first of B, KB, MB, GB under which the size, divided
  by 1024 once per earlier unit, is below 1024; TB when there is none.
\<close>

definition size_units :: "string list" where
  "size_units = [''B'', ''KB'', ''MB'', ''GB'', ''TB'']"

definition unit_index :: "nat \<Rightarrow> nat" where
  "unit_index n = length (takeWhile (\<lambda>k. \<not> (of_nat n / 1024 ^ k < (1024 :: rat))) [0, 1, 2, 3])"

subsection \<open>generate_output_filename\<close>

text \<open>
  The functions of \<open>os.path\<close> on a POSIX system (\<open>posixpath\<close>), where the separator is
  \<open>/\<close>. \<open>rfind_next c p\<close> is \<open>p.rfind(c) + 1\<close>: one past the last occurrence of \<open>c\<close>,
  and 0 when there is none.
\<close>

definition rfind_next :: "char \<Rightarrow> string \<Rightarrow> nat" where
  "rfind_next c p = length p - length (takeWhile (\<lambda>x. x \<noteq> c) (rev p))"

definition rstrip_char :: "char \<Rightarrow> string \<Rightarrow> string" where
  "rstrip_char c s = rev (dropWhile (\<lambda>x. x = c) (rev s))"

definition os_path_dirname :: "string \<Rightarrow> string" where
  "os_path_dirname p =
     (let i = rfind_next (CHR ''/'') p;
          head = take i p
      in if head \<noteq> [] \<and> head \<noteq> replicate (length head) (CHR ''/'')
         then rstrip_char (CHR ''/'') head else head)"

definition os_path_basename :: "string \<Rightarrow> string" where
  "os_path_basename p = drop (rfind_next (CHR ''/'') p) p"

text \<open>
  \<open>os.path.splitext\<close>: the extension starts at the last dot after the last separator,
  unless only dots stand between the separator and that dot. The loop looks for a
  character that is not a dot, from \<open>filenameIndex\<close> up to \<open>dotIndex\<close>.
\<close>

function splitext_loop :: "string \<Rightarrow> nat \<Rightarrow> nat \<Rightarrow> (string \<times> string) option" where
  "splitext_loop p filenameIndex dotIndex =
     (if filenameIndex < dotIndex
      then (if take 1 (drop filenameIndex p) \<noteq> ''.''
            then Some (take dotIndex p, drop dotIndex p)
            else splitext_loop p (filenameIndex + 1) dotIndex)
      else None)"
  by pat_completeness auto
termination
  by (relation "measure (\<lambda>(p, filenameIndex, dotIndex). dotIndex - filenameIndex)") auto

declare splitext_loop.simps [simp del]

definition os_path_splitext :: "string \<Rightarrow> string \<times> string" where
  "os_path_splitext p =
     (let sepNext = rfind_next (CHR ''/'') p;
          dotNext = rfind_next (CHR ''.'') p
      in if dotNext > sepNext
         then (case splitext_loop p sepNext (dotNext - 1) of
                 Some r \<Rightarrow> r
               | None \<Rightarrow> (p, []))
         else (p, []))"

definition os_path_join :: "string \<Rightarrow> string \<Rightarrow> string" where
  "os_path_join a b =
     (if str_startswith b ''/'' then b
      else if a = [] \<or> str_endswith a ''/'' then a @ b
      else a @ ''/'' @ b)"

text \<open>
  \<open>output_path\<close> defaults to \<open>None\<close>; \<open>if output_path:\<close> holds for a string that is
  not empty.
\<close>

definition generate_output_filename :: "string \<Rightarrow> string option \<Rightarrow> string" where
  "generate_output_filename input_path output_path =
     (let default_path =
            (let input_dir = os_path_dirname input_path;
                 input_name = fst (os_path_splitext (os_path_basename input_path))
             in os_path_join input_dir (input_name @ ''.docx''))
      in case output_path of
           None \<Rightarrow> default_path
         | Some out \<Rightarrow> if out \<noteq> [] then out else default_path)"

subsection \<open>get_pdf_info\<close>

text \<open>A dictionary literal keeps its keys in order; \<open>d[k] = v\<close> on a key it has replaces the value.\<close>

type_synonym dict = "(string \<times> pyval) list"

definition dict_get :: "dict \<Rightarrow> string \<Rightarrow> pyval \<Rightarrow> pyval" where
  "dict_get d k dflt = (case map_of d k of Some v \<Rightarrow> v | None \<Rightarrow> dflt)"

definition dict_set :: "dict \<Rightarrow> string \<Rightarrow> pyval \<Rightarrow> dict" where
  "dict_set d k v =
     (if k \<in> set (map fst d) then map (\<lambda>(k', v'). if k' = k then (k', v) else (k', v')) d
      else d @ [(k, v)])"

text \<open>
  The two loops over the first pages: each stops with \<open>True\<close> at the first page with
  text that is not blank (with a non-empty image list), and an exception of a page
  leaves the loop.
\<close>

fun has_text_loop :: "(exn + page) list \<Rightarrow> exn + bool" where
  "has_text_loop [] = Inr False"
| "has_text_loop (pg # rest) =
     (case pg of
        Inl e \<Rightarrow> Inl e
      | Inr page \<Rightarrow>
          (case page_get_text page of
             Inl e \<Rightarrow> Inl e
           | Inr text \<Rightarrow> if str_strip text \<noteq> [] then Inr True else has_text_loop rest))"

fun has_images_loop :: "(exn + page) list \<Rightarrow> exn + bool" where
  "has_images_loop [] = Inr False"
| "has_images_loop (pg # rest) =
     (case pg of
        Inl e \<Rightarrow> Inl e
      | Inr page \<Rightarrow>
          (case page_get_images page of
             Inl e \<Rightarrow> Inl e
           | Inr image_list \<Rightarrow> if image_list \<noteq> [] then Inr True else has_images_loop rest))"

definition sin_titulo :: string where
  "sin_titulo = ''Sin t'' @ [CHR 0xED] @ ''tulo''"

text \<open>The body of the \<open>try\<close> statement; \<open>Inl e\<close> is the exception \<open>e\<close> reaching the handler.\<close>

definition get_pdf_info_try :: "os_env \<Rightarrow> string \<Rightarrow> exn + dict" where
  "get_pdf_info_try env pdf_path =
     (case fitz_open env pdf_path of
        Inl e \<Rightarrow> Inl e
      | Inr doc \<Rightarrow>
      (case get_file_size env (Str pdf_path) of
        Inl e \<Rightarrow> Inl e
      | Inr size_str \<Rightarrow>
      (case doc_metadata doc of
        None \<Rightarrow> Inl (AttributeError ''get'')
      | Some metadata \<Rightarrow>
      (let info =
             [(''pages'', PyNumber (int (length (doc_pages doc)))),
              (''size'', PyStr size_str),
              (''title'', dict_get metadata ''title'' (PyStr sin_titulo)),
              (''author'', dict_get metadata ''author'' (PyStr ''Desconocido'')),
              (''has_text'', PyBool False),
              (''has_images'', PyBool False)];
           first_pages = take (min 3 (length (doc_pages doc))) (doc_pages doc)
       in case has_text_loop first_pages of
            Inl e \<Rightarrow> Inl e
          | Inr has_text \<Rightarrow>
          (let info1 = (if has_text then dict_set info ''has_text'' (PyBool True) else info)
           in case has_images_loop first_pages of
                Inl e \<Rightarrow> Inl e
              | Inr has_images \<Rightarrow>
              (let info2 = (if has_images then dict_set info1 ''has_images'' (PyBool True)
                            else info1)
               in case doc_close doc of
                    Some e \<Rightarrow> Inl e
                  | None \<Rightarrow> Inr info2))))))"

text \<open>
  \<open>except Exception\<close>: the handler builds the fallback dictionary, and calls
  \<open>get_file_size\<close> again to do so; an exception of that call leaves \<open>get_pdf_info\<close>.
\<close>

definition get_pdf_info :: "os_env \<Rightarrow> string \<Rightarrow> exn + dict" where
  "get_pdf_info env pdf_path =
     (case get_pdf_info_try env pdf_path of
        Inr info \<Rightarrow> Inr info
      | Inl e \<Rightarrow>
          (case get_file_size env (Str pdf_path) of
             Inl e' \<Rightarrow> Inl e'
           | Inr size_str \<Rightarrow>
               Inr [(''pages'', PyNumber 0),
                    (''size'', PyStr size_str),
                    (''title'', PyStr ''Error al leer''),
                    (''author'', PyStr ''Desconocido''),
                    (''has_text'', PyBool False),
                    (''has_images'', PyBool False)]))"

section \<open>cli/interface.py\<close>

text \<open>
  The body of a command (the function under the \<open>click\<close> decorators) ends by
  returning, after which \<open>click\<close> exits the process with code 0, or by
  \<open>sys.exit(code)\<close>. \<open>SystemExit\<close> is not an \<open>Exception\<close>, so the handler
  \<open>except Exception\<close> around the body lets it pass. The cause records which
  \<open>sys.exit\<close> of the source ended the body: the one after a failed validation,
  the one after a conversion that returned a false value, or the one in the handler of
  the command, with the exception it caught.
\<close>

datatype cause = InvalidFile | ConversionFailed | Unhandled exn

datatype ending = Returned | SysExit nat cause

fun exit_code :: "ending \<Rightarrow> nat" where
  "exit_code Returned = 0"
| "exit_code (SysExit code c) = code"

record config =
  quality :: string
  preserve_layout :: bool
  extract_images :: bool
  extract_tables :: bool
  verbose :: bool

text \<open>
  What the commands use beyond \<open>helpers.py\<close>. The class \<open>PDFToWordConverter\<close> of
  \<open>core/converter.py\<close> is not among the sources: its constructor, its \<open>convert\<close>
  method (which returns a value tested for truth, or raises, and may change the
  converter, of state \<open>'c\<close>) and its \<open>get_stats\<close> are parameters. \<open>mkdir\<close> is
  \<open>Path.mkdir(parents=True, exist_ok=True)\<close>; \<open>glob_pdf\<close> is
  \<open>list(input_path.glob("*.pdf"))\<close>. Printing and the progress bar are taken not to
  raise; what is printed is kept as a list of events.
\<close>

record 'c cli_env =
  os :: os_env
  mkdir :: "string \<Rightarrow> exn option"
  glob_pdf :: "string \<Rightarrow> exn + string list"
  converter_new :: "config \<Rightarrow> exn + 'c"
  converter_convert :: "'c \<Rightarrow> string \<Rightarrow> string \<Rightarrow> (exn + bool) \<times> 'c"
  converter_get_stats :: "'c \<Rightarrow> exn option"

text \<open>
  \<open>pathlib\<close> on a POSIX system. A path is kept as its parts: the root (\<open>/\<close>, or \<open>//\<close>
  for exactly two leading slashes, or none) and the components between slashes that
  are neither empty nor a single dot. \<open>path_str\<close> is \<open>str(Path(p))\<close>, which is \<open>.\<close>
  for a path without root and parts.
\<close>

fun split_sep :: "string \<Rightarrow> string list" where
  "split_sep [] = [[]]"
| "split_sep (x # xs) =
     (if x = CHR ''/'' then [] # split_sep xs
      else (case split_sep xs of [] \<Rightarrow> [[x]] | q # qs \<Rightarrow> (x # q) # qs))"

fun join_sep :: "string list \<Rightarrow> string" where
  "join_sep [] = []"
| "join_sep [q] = q"
| "join_sep (q # qs) = q @ ''/'' @ join_sep qs"

definition splitroot :: "string \<Rightarrow> string \<times> string" where
  "splitroot p =
     (if take 1 p \<noteq> ''/'' then ([], p)
      else if take 1 (drop 1 p) \<noteq> ''/'' \<or> take 1 (drop 2 p) = ''/'' then (''/'', drop 1 p)
      else (take 2 p, drop 2 p))"

definition path_root :: "string \<Rightarrow> string" where
  "path_root p = fst (splitroot p)"

definition path_tail :: "string \<Rightarrow> string list" where
  "path_tail p = filter (\<lambda>x. x \<noteq> [] \<and> x \<noteq> ''.'') (split_sep (snd (splitroot p)))"

definition format_parts :: "string \<Rightarrow> string list \<Rightarrow> string" where
  "format_parts rt parts = (let s = rt @ join_sep parts in if s = [] then ''.'' else s)"

definition path_str :: "string \<Rightarrow> string" where
  "path_str p = format_parts (path_root p) (path_tail p)"

text \<open>\<open>Path.name\<close>, \<open>Path.stem\<close> and \<open>Path.parent\<close>.\<close>

definition path_name :: "string \<Rightarrow> string" where
  "path_name p = (if path_tail p = [] then [] else last (path_tail p))"

definition path_stem :: "string \<Rightarrow> string" where
  "path_stem p =
     (let name = path_name p;
          i = rfind_next (CHR ''.'') name
      in if 2 \<le> i \<and> i < length name then take (i - 1) name else name)"

definition path_parent :: "string \<Rightarrow> string" where
  "path_parent p = format_parts (path_root p) (butlast (path_tail p))"

text \<open>\<open>Path(a) / b\<close>: the segments are joined as \<open>os.path.join\<close> does and parsed again.\<close>

definition path_div :: "string \<Rightarrow> string \<Rightarrow> string" where
  "path_div a b = path_str (os_path_join a b)"

subsection \<open>convert\<close>

text \<open>
  \<open>convert_try\<close> is the body of the \<open>try\<close> statement of \<open>convert\<close>; \<open>Inl e\<close> is \<open>e\<close>
  reaching the handler. \<open>convert\<close> is the function under the decorators, from its
  header line to its handler; the checks that \<open>click\<close> makes on the arguments before it
  calls the function are in \<open>convert_command\<close> below.
\<close>

definition convert_try :: "'c cli_env \<Rightarrow> string \<Rightarrow> string \<Rightarrow> config \<Rightarrow> exn + ending" where
  "convert_try env input_file output_file cfg =
     (let input_path = PathObj input_file
      in case validate_file (os env) input_path ''.pdf'' of
           Inl e \<Rightarrow> Inl e
         | Inr valid \<Rightarrow>
             if \<not> valid then Inr (SysExit 1 InvalidFile)
             else
             (case mkdir env (path_parent output_file) of
                Some e \<Rightarrow> Inl e
              | None \<Rightarrow>
              (case get_file_size (os env) input_path of
                Inl e \<Rightarrow> Inl e
              | Inr file_size \<Rightarrow>
              (case converter_new env cfg of
                Inl e \<Rightarrow> Inl e
              | Inr converter \<Rightarrow>
              (case converter_convert env converter input_file output_file of
                (Inl e, converter') \<Rightarrow> Inl e
              | (Inr success, converter') \<Rightarrow>
                  if success
                  then (if verbose cfg
                        then (case converter_get_stats env converter' of
                                Some e \<Rightarrow> Inl e
                              | None \<Rightarrow> Inr Returned)
                        else Inr Returned)
                  else Inr (SysExit 1 ConversionFailed))))))"

definition convert :: "'c cli_env \<Rightarrow> string \<Rightarrow> string \<Rightarrow> config \<Rightarrow> ending" where
  "convert env input_file output_file cfg =
     (case convert_try env input_file output_file cfg of
        Inl e \<Rightarrow> SysExit 1 (Unhandled e)
      | Inr ending \<Rightarrow> ending)"

subsection \<open>batch\<close>

datatype event =
    Processing nat nat string
  | ConvertBegin string string
  | ConvertEnd string "exn + bool"
  | PrintSuccess
  | PrintFailed
  | PrintError exn
  | NoFiles
  | Summary nat nat nat

record 'c batch_state =
  converter :: 'c
  successful :: nat
  failed :: nat
  events :: "event list"

text \<open>The output file of a round: \<open>output_path / f"{pdf_file.stem}.docx"\<close>.\<close>

definition output_file_for :: "string \<Rightarrow> string \<Rightarrow> string" where
  "output_file_for output_dir pdf_file = path_div output_dir (path_stem pdf_file @ ''.docx'')"

text \<open>
  One round of the \<open>for\<close> loop: the header line, the call of \<open>converter.convert\<close>
  inside the inner \<open>try\<close>, and one of the three branches that count the file.
\<close>

definition process_file ::
  "'c cli_env \<Rightarrow> string \<Rightarrow> nat \<Rightarrow> nat \<times> string \<Rightarrow> 'c batch_state \<Rightarrow> 'c batch_state" where
  "process_file env output_dir n_files ip st =
     (let i = fst ip;
          pdf_file = snd ip;
          output_file = output_file_for output_dir pdf_file;
          header = [Processing i n_files (path_name pdf_file), ConvertBegin pdf_file output_file]
      in case converter_convert env (converter st) pdf_file output_file of
           (Inr success, converter') \<Rightarrow>
             if success
             then st\<lparr>converter := converter',
                     successful := successful st + 1,
                     events := events st @ header @ [ConvertEnd pdf_file (Inr success), PrintSuccess]\<rparr>
             else st\<lparr>converter := converter',
                     failed := failed st + 1,
                     events := events st @ header @ [ConvertEnd pdf_file (Inr success), PrintFailed]\<rparr>
         | (Inl e, converter') \<Rightarrow>
             st\<lparr>converter := converter',
                failed := failed st + 1,
                events := events st @ header @ [ConvertEnd pdf_file (Inl e), PrintError e]\<rparr>)"

text \<open>The loop \<open>for i, pdf_file in enumerate(pdf_files, 1)\<close>.\<close>

fun batch_loop ::
  "'c cli_env \<Rightarrow> string \<Rightarrow> nat \<Rightarrow> (nat \<times> string) list \<Rightarrow> 'c batch_state \<Rightarrow> 'c batch_state" where
  "batch_loop env output_dir n_files [] st = st"
| "batch_loop env output_dir n_files (ip # rest) st =
     batch_loop env output_dir n_files rest (process_file env output_dir n_files ip st)"

definition batch_run :: "'c cli_env \<Rightarrow> string \<Rightarrow> string list \<Rightarrow> 'c \<Rightarrow> 'c batch_state" where
  "batch_run env output_dir pdf_files c =
     batch_loop env output_dir (length pdf_files) (enumerate 1 pdf_files)
       \<lparr>converter = c, successful = 0, failed = 0, events = []\<rparr>"

text \<open>The body of the \<open>try\<close> statement of \<open>batch\<close>, with what it printed.\<close>

definition batch_try ::
  "'c cli_env \<Rightarrow> string \<Rightarrow> string \<Rightarrow> config \<Rightarrow> exn + ending \<times> event list" where
  "batch_try env input_dir output_dir cfg =
     (case glob_pdf env input_dir of
        Inl e \<Rightarrow> Inl e
      | Inr pdf_files \<Rightarrow>
          if pdf_files = [] then Inr (Returned, [NoFiles])
          else
          (case mkdir env output_dir of
             Some e \<Rightarrow> Inl e
           | None \<Rightarrow>
           (case converter_new env cfg of
              Inl e \<Rightarrow> Inl e
            | Inr c \<Rightarrow>
                (let st = batch_run env output_dir pdf_files c
                 in Inr (Returned,
                         events st @ [Summary (length pdf_files) (successful st) (failed st)])))))"

definition batch :: "'c cli_env \<Rightarrow> string \<Rightarrow> string \<Rightarrow> config \<Rightarrow> ending \<times> event list" where
  "batch env input_dir output_dir cfg =
     (case batch_try env input_dir output_dir cfg of
        Inl e \<Rightarrow> (SysExit 1 (Unhandled e), [PrintError e])
      | Inr r \<Rightarrow> r)"

subsection \<open>The commands as click runs them\<close>

text \<open>
  Before it calls the function of a command, \<open>click\<close> converts each argument by its
  declared type, and a value that the type refuses ends the process with exit code 2
  (a usage error). \<open>click.Path\<close> calls \<open>os.stat\<close> on the value: when that raises
  \<open>OSError\<close> the value is refused if \<open>exists=True\<close> and accepted otherwise; a regular
  file is refused under \<open>file_okay=False\<close>, a directory under \<open>dir_okay=False\<close>, and a
  path that \<open>os.access\<close> does not find readable is refused. \<open>click.Choice\<close> accepts the
  listed strings. The file system is read here before the function runs, so what
  \<open>click\<close> sees is kept apart from what the function sees later.
\<close>

datatype file_kind = RegularFile | Directory | OtherFile

record click_fs =
  os_stat :: "string \<Rightarrow> file_kind option"
  os_access_read :: "string \<Rightarrow> bool"

definition click_path :: "click_fs \<Rightarrow> bool \<Rightarrow> bool \<Rightarrow> bool \<Rightarrow> string \<Rightarrow> bool" where
  "click_path fs must_exist file_okay dir_okay value =
     (case os_stat fs value of
        None \<Rightarrow> \<not> must_exist
      | Some kind \<Rightarrow>
          \<not> (\<not> file_okay \<and> kind = RegularFile) \<and>
          \<not> (\<not> dir_okay \<and> kind = Directory) \<and>
          os_access_read fs value)"

definition click_choice :: "string list \<Rightarrow> string \<Rightarrow> bool" where
  "click_choice choices value = (value \<in> set choices)"

text \<open>
  The decorators of \<open>convert\<close>: \<open>input_file\<close> is \<open>click.Path(exists=True, dir_okay=False)\<close>,
  \<open>output_file\<close> is \<open>click.Path(dir_okay=False)\<close>, \<open>--quality\<close> is a choice of
  \<open>low\<close>, \<open>medium\<close>, \<open>high\<close>; the other options are flags.
\<close>

definition convert_args_ok :: "click_fs \<Rightarrow> string \<Rightarrow> string \<Rightarrow> config \<Rightarrow> bool" where
  "convert_args_ok fs input_file output_file cfg =
     (click_path fs True True False input_file \<and>
      click_path fs False True False output_file \<and>
      click_choice [''low'', ''medium'', ''high''] (quality cfg))"

text \<open>
  The decorators of \<open>batch\<close>: \<open>input_dir\<close> is \<open>click.Path(exists=True, file_okay=False)\<close>,
  \<open>output_dir\<close> is \<open>click.Path(file_okay=False)\<close>, and the same options.
\<close>

definition batch_args_ok :: "click_fs \<Rightarrow> string \<Rightarrow> string \<Rightarrow> config \<Rightarrow> bool" where
  "batch_args_ok fs input_dir output_dir cfg =
     (click_path fs True False True input_dir \<and>
      click_path fs False False True output_dir \<and>
      click_choice [''low'', ''medium'', ''high''] (quality cfg))"

text \<open>The exit code of the process for an invocation with two arguments and its options.\<close>

definition convert_command ::
  "click_fs \<Rightarrow> 'c cli_env \<Rightarrow> string \<Rightarrow> string \<Rightarrow> config \<Rightarrow> nat" where
  "convert_command fs env input_file output_file cfg =
     (if \<not> convert_args_ok fs input_file output_file cfg then 2
      else exit_code (convert env input_file output_file cfg))"

definition batch_command ::
  "click_fs \<Rightarrow> 'c cli_env \<Rightarrow> string \<Rightarrow> string \<Rightarrow> config \<Rightarrow> nat" where
  "batch_command fs env input_dir output_dir cfg =
     (if \<not> batch_args_ok fs input_dir output_dir cfg then 2
      else exit_code (fst (batch env input_dir output_dir cfg)))"

section \<open>Notions of the specification\<close>

text \<open>
  \<open>file_path\<close> ends with \<open>extension\<close> when case is ignored: its last characters, as
  many as the extension has, equal the extension once both are in lower case.
\<close>

definition ends_with_ignoring_case :: "string \<Rightarrow> string \<Rightarrow> bool" where
  "ends_with_ignoring_case file_path extension =
     (length extension \<le> length file_path \<and>
      str_lower (drop (length file_path - length extension) file_path) = str_lower extension)"

text \<open>
  The results of converting the files of a batch one after the other, each call made
  on the converter as the call before left it.
\<close>

fun run_outcomes :: "'c cli_env \<Rightarrow> string \<Rightarrow> string list \<Rightarrow> 'c \<Rightarrow> (exn + bool) list" where
  "run_outcomes env output_dir [] c = []"
| "run_outcomes env output_dir (pdf_file # rest) c =
     fst (converter_convert env c pdf_file (output_file_for output_dir pdf_file)) #
     run_outcomes env output_dir rest
       (snd (converter_convert env c pdf_file (output_file_for output_dir pdf_file)))"

fun raised :: "exn + bool \<Rightarrow> bool" where
  "raised (Inl e) = True"
| "raised (Inr b) = False"

text \<open>The events of a trace that begin or end a conversion, and the files begun.\<close>

fun conversion_event :: "event \<Rightarrow> bool" where
  "conversion_event (ConvertBegin pdf_file output_file) = True"
| "conversion_event (ConvertEnd pdf_file r) = True"
| "conversion_event ev = False"

fun begun :: "event list \<Rightarrow> string list" where
  "begun [] = []"
| "begun (ConvertBegin pdf_file output_file # evs) = pdf_file # begun evs"
| "begun (ev # evs) = begun evs"

section \<open>Example inputs\<close>

text \<open>
  A directory \<open>in\<close> with three PDF files of which only \<open>in/a.pdf\<close> is on disk when
  asked, no readable PDF, and a converter that counts its calls: it raises on
  \<open>in/a.pdf\<close>, succeeds on \<open>in/b.pdf\<close> and returns \<open>False\<close> on anything else.
\<close>

definition ex_os :: os_env where
  "ex_os =
     \<lparr>os_path_exists = (\<lambda>p. p = ''in/a.pdf''),
      os_path_getsize = (\<lambda>p. if p = ''in/a.pdf'' then Inr 1280 else Inl OSError),
      fitz_open = (\<lambda>p. Inl (RuntimeError ''cannot open''))\<rparr>"

definition ex_convert :: "nat \<Rightarrow> string \<Rightarrow> string \<Rightarrow> (exn + bool) \<times> nat" where
  "ex_convert c pdf_file output_file =
     (if pdf_file = ''in/a.pdf'' then Inl (RuntimeError ''damaged'')
      else if pdf_file = ''in/b.pdf'' then Inr True
      else Inr False,
      Suc c)"

definition ex_cli :: "nat cli_env" where
  "ex_cli =
     \<lparr>os = ex_os,
      mkdir = (\<lambda>p. None),
      glob_pdf = (\<lambda>d. if d = ''in'' then Inr [''in/a.pdf'', ''in/b.pdf'', ''in/c.pdf''] else Inl OSError),
      converter_new = (\<lambda>cfg. Inr 0),
      converter_convert = ex_convert,
      converter_get_stats = (\<lambda>c. None)\<rparr>"

text \<open>
  A path with an embedded null character: \<open>os.stat\<close> refuses it with \<open>ValueError\<close>, no
  file of that name exists, and no PDF can be opened from it.
\<close>

definition nul_path :: string where
  "nul_path = [CHR ''a'', CHR 0x00, CHR ''b'']"

definition nul_os :: os_env where
  "nul_os =
     \<lparr>os_path_exists = (\<lambda>p. False),
      os_path_getsize = (\<lambda>p. if CHR 0x00 \<in> set p then Inl ValueError else Inl OSError),
      fitz_open = (\<lambda>p. Inl (RuntimeError ''cannot open''))\<rparr>"

text \<open>What \<open>click\<close> sees of the same directory: \<open>in\<close> with its three regular files.\<close>

definition ex_fs :: click_fs where
  "ex_fs =
     \<lparr>os_stat =
        (\<lambda>p. if p = ''in'' then Some Directory
              else if p \<in> set [''in/a.pdf'', ''in/b.pdf'', ''in/c.pdf''] then Some RegularFile
              else None),
      os_access_read = (\<lambda>p. True)\<rparr>"

definition ex_cfg :: config where
  "ex_cfg =
     \<lparr>quality = ''high'', preserve_layout = True, extract_images = True,
      extract_tables = True, verbose = False\<rparr>"

section \<open>Properties\<close>

subsection \<open>sanitize_filename\<close>

lemma fold_replace:
  "fold (\<lambda>char fn. str_replace fn char (CHR ''_'')) invalid_chars filename =
     map (\<lambda>c. if c \<in> set invalid_chars then CHR ''_'' else c) filename"
  by (simp add: invalid_chars_def str_replace_def)

text \<open>
  Up to its last statement the function computes what the specification asks for.
\<close>

lemma sanitize_body_spec: "sanitize_body filename = sanitize_filename_spec filename"
  by (simp add: sanitize_body_def sanitize_filename_spec_def fold_replace Let_def)

text \<open>
  C1. \<open>sanitize_filename\<close> is to return the file name with each of the nine characters
  replaced by an underscore, trimmed and cut to 200 characters. The source ends in
  \<open>return filenamev\<close>, a name bound nowhere: every call raises \<open>NameError\<close> and no
  string is returned.
\<close>

theorem sanitize_filename_raises:
  "sanitize_filename filename = Inl (NameError ''filenamev'')"
  by (simp add: sanitize_filename_def read_name_def)

subsection \<open>validate_file\<close>

lemma str_endswith_lower:
  "str_endswith (str_lower p) (str_lower ext) = ends_with_ignoring_case p ext"
  by (simp add: str_endswith_def ends_with_ignoring_case_def str_lower_def drop_map)

text \<open>
  C2. On a path given as a string, \<open>validate_file\<close> returns \<open>False\<close> when the path does
  not exist, \<open>False\<close> when the path does not end with the extension (case ignored), and
  \<open>True\<close> otherwise.
\<close>

theorem validate_file_string:
  "validate_file env (Str file_path) extension =
     Inr (if \<not> os_path_exists env file_path then False
          else if \<not> ends_with_ignoring_case file_path extension then False
          else True)"
  by (simp add: validate_file_def str_endswith_lower)

lemma validate_file_PathObj:
  "validate_file env (PathObj p) ext =
     (if os_path_exists env p then Inl (AttributeError ''lower'') else Inr False)"
  by (simp add: validate_file_def)

text \<open>
  How \<open>convert\<close> ends: its validation is called on a \<open>Path\<close> object, so it either
  fails or raises, and everything after it in the body is never reached.
\<close>

lemma convert_ending:
  "convert env input_file output_file cfg =
     (if os_path_exists (os env) input_file then SysExit 1 (Unhandled (AttributeError ''lower''))
      else SysExit 1 InvalidFile)"
  by (simp add: convert_def convert_try_def validate_file_PathObj)

text \<open>
  C3. On a \<open>pathlib.Path\<close> that refers to an existing file, \<open>validate_file\<close> raises
  \<open>AttributeError\<close> instead of returning a boolean; the call that \<open>convert\<close> makes
  never returns \<open>True\<close>, on an existing input file \<open>convert\<close> ends in its handler with
  that exception, and \<open>convert\<close> never ends by returning (its success path).
\<close>

theorem validate_file_path_object:
  "(os_path_exists env p \<longrightarrow> validate_file env (PathObj p) ext = Inl (AttributeError ''lower''))
   \<and> validate_file (os cenv) (PathObj input_file) ''.pdf'' \<noteq> Inr True
   \<and> (os_path_exists (os cenv) input_file \<longrightarrow>
        convert cenv input_file output_file cfg = SysExit 1 (Unhandled (AttributeError ''lower'')))
   \<and> convert cenv input_file output_file cfg \<noteq> Returned"
  by (simp add: validate_file_PathObj convert_ending)

theorem validate_file_path_object_witness:
  "os_path_exists ex_os ''in/a.pdf''
   \<and> validate_file ex_os (PathObj ''in/a.pdf'') ''.pdf'' = Inl (AttributeError ''lower'')
   \<and> validate_file (os ex_cli) (PathObj ''in/a.pdf'') ''.pdf'' \<noteq> Inr True
   \<and> os_path_exists (os ex_cli) ''in/a.pdf''
   \<and> convert ex_cli ''in/a.pdf'' ''out/a.docx'' ex_cfg = SysExit 1 (Unhandled (AttributeError ''lower''))"
  using validate_file_path_object
    [where env = ex_os and p = "''in/a.pdf''" and ext = "''.pdf''" and cenv = ex_cli
       and input_file = "''in/a.pdf''" and output_file = "''out/a.docx''" and cfg = ex_cfg]
  by (simp add: ex_os_def ex_cli_def)

subsection \<open>get_file_size\<close>

lemma round53_small: "n < 2 ^ 53 \<Longrightarrow> round53 n = n"
  by (simp add: round53_def)

lemma round53_large:
  assumes "2 ^ 53 \<le> n"
  shows "2 ^ 53 \<le> round53 n" and "round53 n \<le> 2 * n"
proof -
  define e where "e = floorlog 2 n - 53"
  define q where "q = n div 2 ^ e"
  have npos: "0 < n"
    using assms by (simp add: less_le_trans [of 0 "2 ^ 53" n])
  have "54 \<le> floorlog 2 n"
    using assms by (intro floorlog_geI) simp_all
  then have fl: "floorlog 2 n - 1 = e + 52" and epos: "1 \<le> e"
    by (simp_all add: e_def)
  have "(2::nat) ^ (floorlog 2 n - 1) \<le> n"
    using floorlog_bounds [of n 2] npos by simp
  then have "(2::nat) ^ (e + 52) \<le> n"
    by (simp only: fl)
  then have lower: "(2::nat) ^ 52 * 2 ^ e \<le> n"
    by (simp only: power_add mult.commute)
  then have q52: "2 ^ 52 \<le> q"
    by (simp add: q_def less_eq_div_iff_mult_less_eq)
  have "(2::nat) ^ 1 \<le> 2 ^ e"
    using epos by (intro power_increasing) simp_all
  then have e2: "(2::nat) \<le> 2 ^ e" by simp
  have "(2::nat) ^ 52 * 2 \<le> q * 2 ^ e"
    using q52 e2 by (rule mult_le_mono)
  then have qlow: "2 ^ 53 \<le> q * 2 ^ e" by simp
  have qn: "q * 2 ^ e \<le> n"
    by (simp add: q_def)
  have "(1::nat) * 2 ^ e \<le> 2 ^ 52 * 2 ^ e"
    by (intro mult_le_mono) simp_all
  then have en: "2 ^ e \<le> n"
    using lower by simp
  have r: "round53 n = q * 2 ^ e \<or> round53 n = (q + 1) * 2 ^ e"
    using assms by (auto simp: round53_def Let_def e_def q_def)
  from r qlow show "2 ^ 53 \<le> round53 n"
    by (auto simp: add_mult_distrib)
  from r qn en show "round53 n \<le> 2 * n"
    by (auto simp: add_mult_distrib)
qed

lemma int_to_float_ok:
  assumes "n < 2 ^ 63"
  shows "int_to_float n = Inr (of_nat (round53 n))"
proof -
  have "round53 n < 2 ^ 64"
  proof (cases "n < 2 ^ 53")
    case True
    then show ?thesis using assms by (simp add: round53_small)
  next
    case False
    then have "round53 n \<le> 2 * n" by (intro round53_large) simp
    with assms show ?thesis by simp
  qed
  also have "(2::nat) ^ 64 \<le> 2 ^ 1024"
    by (intro power_increasing) simp_all
  finally show ?thesis
    by (simp add: int_to_float_def)
qed

lemma below_iff: "(of_nat m / 1024 ^ k < (1024::rat)) = (m < 1024 ^ Suc k)"
proof -
  have "(of_nat m / 1024 ^ k < (1024::rat)) = (of_nat m < (1024::rat) * 1024 ^ k)"
    by (simp add: pos_divide_less_eq)
  also have "(1024::rat) * 1024 ^ k = of_nat (1024 ^ Suc k)"
    by simp
  also have "(of_nat m < (of_nat (1024 ^ Suc k) :: rat)) = (m < 1024 ^ Suc k)"
    by (rule of_nat_less_iff)
  finally show ?thesis .
qed

lemma round53_below:
  assumes "k \<le> 3"
  shows "(of_nat (round53 n) / 1024 ^ k < (1024::rat)) = (of_nat n / 1024 ^ k < (1024::rat))"
proof (cases "n < 2 ^ 53")
  case True
  then show ?thesis by (simp add: round53_small)
next
  case False
  then have big: "2 ^ 53 \<le> n" "2 ^ 53 \<le> round53 n"
    using round53_large(1) [of n] by simp_all
  have "(1024::nat) ^ Suc k \<le> 1024 ^ 4"
    using assms by (intro power_increasing) simp_all
  also have "(1024::nat) ^ 4 \<le> 2 ^ 53" by simp
  finally have "(1024::nat) ^ Suc k \<le> 2 ^ 53" .
  with big have "\<not> n < 1024 ^ Suc k" "\<not> round53 n < 1024 ^ Suc k"
    by simp_all
  then show ?thesis
    by (simp only: below_iff)
qed

lemma unit_index_cases:
  "unit_index n =
     (if n < 1024 then 0 else if n < 1024 ^ 2 then 1 else if n < 1024 ^ 3 then 2
      else if n < 1024 ^ 4 then 3 else 4)"
proof -
  have b: "\<And>k. (of_nat n / 1024 ^ k < (1024::rat)) = (n < 1024 ^ Suc k)"
    by (rule below_iff)
  show ?thesis
    unfolding unit_index_def b by simp
qed

lemma size_loop_float:
  assumes "k \<le> length units"
    and "\<forall>j<k. \<not> (v / 1024 ^ j < 1024)"
    and "k < length units \<longrightarrow> v / 1024 ^ k < 1024"
  shows "size_loop units (PyFloat v) =
           Inr (format_1f (v / 1024 ^ k) @ '' '' @ (units @ [''TB'']) ! k)"
  using assms
proof (induction units arbitrary: v k)
  case Nil
  then show ?case by (simp add: format_size_def)
next
  case (Cons unit units)
  show ?case
  proof (cases k)
    case 0
    with Cons.prems show ?thesis by (simp add: format_size_def)
  next
    case (Suc k')
    with Cons.prems have nlt: "\<not> v < 1024" by fastforce
    have a: "k' \<le> length units" using Cons.prems Suc by simp
    have b: "\<forall>j<k'. \<not> (v / 1024 / 1024 ^ j < 1024)"
    proof (intro allI impI)
      fix j assume "j < k'"
      then have "Suc j < k" using Suc by simp
      with Cons.prems(2) have "\<not> (v / 1024 ^ Suc j < 1024)" by blast
      then show "\<not> (v / 1024 / 1024 ^ j < 1024)" by simp
    qed
    have c: "k' < length units \<longrightarrow> v / 1024 / 1024 ^ k' < 1024"
      using Cons.prems(3) Suc by simp
    have "size_loop (unit # units) (PyFloat v) = size_loop units (PyFloat (v / 1024))"
      using nlt by (simp add: div_1024_def)
    also have "\<dots> = Inr (format_1f (v / 1024 / 1024 ^ k') @ '' '' @ (units @ [''TB'']) ! k')"
      using a b c by (rule Cons.IH)
    finally show ?thesis by (simp add: Suc)
  qed
qed

lemma float_below:
  "k \<le> 3 \<Longrightarrow> (of_nat (round53 n) / 1024 ^ k < (1024::rat)) = (n < 1024 ^ Suc k)"
  by (metis round53_below below_iff)

lemma unit_index_le: "unit_index n \<le> 4"
  by (simp add: unit_index_cases)

lemma unit_index_lower: "0 < unit_index n \<Longrightarrow> 1024 ^ unit_index n \<le> n"
  by (auto simp: unit_index_cases split: if_splits)

lemma unit_index_upper: "unit_index n < 4 \<Longrightarrow> n < 1024 ^ Suc (unit_index n)"
  by (auto simp: unit_index_cases split: if_splits)

lemma size_loop_units:
  assumes "n < 2 ^ 63"
  shows "size_loop [''B'', ''KB'', ''MB'', ''GB''] (PyInt n) =
           Inr (format_1f (of_nat (round53 n) / 1024 ^ unit_index n) @ '' '' @
                size_units ! unit_index n)"
proof (cases "n < 1024")
  case True
  then have "unit_index n = 0" by (simp add: unit_index_cases)
  with True assms show ?thesis
    by (simp add: format_size_def int_to_float_ok size_units_def)
next
  case False
  define v where "v = (of_nat (round53 n) :: rat)"
  from False obtain k' where k: "unit_index n = Suc k'"
    by (cases "unit_index n") (auto simp: unit_index_cases split: if_splits)
  have k3: "k' \<le> 3" using unit_index_le [of n] k by simp
  have low: "1024 ^ Suc k' \<le> n" using unit_index_lower [of n] k by simp
  have a: "k' \<le> length [''KB'', ''MB'', ''GB'']" using k3 by simp
  have b: "\<forall>j<k'. \<not> (v / 1024 / 1024 ^ j < 1024)"
  proof (intro allI impI)
    fix j assume j: "j < k'"
    then have "Suc j \<le> 3" using k3 by simp
    then have "(v / 1024 ^ Suc j < 1024) = (n < 1024 ^ Suc (Suc j))"
      unfolding v_def by (rule float_below)
    moreover have "(1024::nat) ^ Suc (Suc j) \<le> 1024 ^ Suc k'"
      using j by (intro power_increasing) simp_all
    ultimately have "\<not> (v / 1024 ^ Suc j < 1024)" using low by simp
    then show "\<not> (v / 1024 / 1024 ^ j < 1024)" by simp
  qed
  have c: "k' < length [''KB'', ''MB'', ''GB''] \<longrightarrow> v / 1024 / 1024 ^ k' < 1024"
  proof
    assume "k' < length [''KB'', ''MB'', ''GB'']"
    then have k2: "Suc k' \<le> 3" by simp
    then have "unit_index n < 4" using k by simp
    then have "n < 1024 ^ Suc (Suc k')" using unit_index_upper [of n] k by simp
    moreover have "(v / 1024 ^ Suc k' < 1024) = (n < 1024 ^ Suc (Suc k'))"
      unfolding v_def using k2 by (rule float_below)
    ultimately have "v / 1024 ^ Suc k' < 1024" by simp
    then show "v / 1024 / 1024 ^ k' < 1024" by simp
  qed
  have "size_loop [''B'', ''KB'', ''MB'', ''GB''] (PyInt n) =
        size_loop [''KB'', ''MB'', ''GB''] (PyFloat (v / 1024))"
    using False assms by (simp add: div_1024_def int_to_float_ok v_def)
  also have "\<dots> = Inr (format_1f (v / 1024 / 1024 ^ k') @ '' '' @
                        ([''KB'', ''MB'', ''GB''] @ [''TB'']) ! k')"
    using a b c by (rule size_loop_float)
  also have "v / 1024 / 1024 ^ k' = v / 1024 ^ unit_index n"
    by (simp add: k)
  also have "([''KB'', ''MB'', ''GB''] @ [''TB'']) ! k' = size_units ! unit_index n"
    by (simp add: k size_units_def)
  finally show ?thesis
    by (simp add: v_def)
qed


text \<open>The expansion printed by \<open>.1f\<close> is within half a tenth of the value.\<close>

lemma tenths_bounds:
  assumes "0 \<le> v"
  shows "\<bar>of_nat (tenths v) - 10 * v\<bar> \<le> 1 / 2"
proof -
  define f where "f = \<lfloor>10 * v\<rfloor>"
  have f0: "0 \<le> f" using assms by (simp add: f_def)
  have lo: "of_int f \<le> 10 * v" and hi: "10 * v < of_int f + 1"
    using floor_correct [of "10 * v"] by (simp_all add: f_def)
  show ?thesis
  proof (cases "10 * v - of_int f > 1 / 2 \<or> (10 * v - of_int f = 1 / 2 \<and> odd f)")
    case True
    then have "tenths v = nat (f + 1)" by (simp add: tenths_def Let_def f_def)
    then have "(of_nat (tenths v) :: rat) = of_int f + 1" using f0 by simp
    with True lo hi show ?thesis by auto
  next
    case False
    then have "tenths v = nat f" by (auto simp: tenths_def Let_def f_def)
    then have "(of_nat (tenths v) :: rat) = of_int f" using f0 by simp
    with False lo hi show ?thesis by auto
  qed
qed


subsection \<open>get_pdf_info\<close>

lemma get_file_size_OSError:
  "os_path_getsize env (fspath file_path) = Inl OSError \<Longrightarrow>
     get_file_size env file_path = Inr ''Desconocido''"
  by (simp add: get_file_size_def except_OSError_def)

lemma get_file_size_returns:
  assumes "os_path_getsize env (fspath file_path) = Inl OSError
           \<or> (\<exists>n. os_path_getsize env (fspath file_path) = Inr n \<and> n < 2 ^ 63)"
  shows "\<exists>size_str. get_file_size env file_path = Inr size_str"
  using assms
proof
  assume "os_path_getsize env (fspath file_path) = Inl OSError"
  then show ?thesis by (simp add: get_file_size_OSError)
next
  assume "\<exists>n. os_path_getsize env (fspath file_path) = Inr n \<and> n < 2 ^ 63"
  then obtain n where n: "os_path_getsize env (fspath file_path) = Inr n" "n < 2 ^ 63"
    by blast
  have "size_loop [''B'', ''KB'', ''MB'', ''GB''] (PyInt n) =
           Inr (format_1f (of_nat (round53 n) / 1024 ^ unit_index n) @ '' '' @
                size_units ! unit_index n)"
    using n(2) by (rule size_loop_units)
  then show ?thesis
    using n(1) by (simp add: get_file_size_def except_OSError_def del: size_loop.simps)
qed

text \<open>
  C9, as stated, fails: \<open>get_pdf_info\<close> is to propagate no exception, but its handler
  calls \<open>get_file_size\<close>, which catches \<open>OSError\<close> only. On a path with an embedded
  null character the PDF cannot be opened, the handler runs, and the \<open>ValueError\<close> of
  \<open>os.path.getsize\<close> leaves \<open>get_pdf_info\<close>.
\<close>

theorem get_pdf_info_propagates:
  "get_pdf_info_try nul_os nul_path = Inl (RuntimeError ''cannot open'')
   \<and> get_pdf_info nul_os nul_path = Inl ValueError"
  by (simp add: get_pdf_info_def get_pdf_info_try_def nul_os_def nul_path_def get_file_size_def
      except_OSError_def)

text \<open>
  C9, amended. When opening or reading the PDF raises, and \<open>os.path.getsize\<close> of the
  path returns a size or raises \<open>OSError\<close>, \<open>get_pdf_info\<close> returns the dictionary with
  exactly the keys \<open>pages\<close>, \<open>size\<close>, \<open>title\<close>, \<open>author\<close>, \<open>has_text\<close>, \<open>has_images\<close>,
  where \<open>pages\<close> is 0, \<open>size\<close> is the result of \<open>get_file_size\<close>, \<open>title\<close> is
  \<open>Error al leer\<close>, \<open>author\<close> is \<open>Desconocido\<close> and both flags are \<open>False\<close>.
\<close>

theorem get_pdf_info_fallback:
  assumes "get_pdf_info_try env pdf_path = Inl e"
    and "os_path_getsize env pdf_path = Inl OSError
         \<or> (\<exists>n. os_path_getsize env pdf_path = Inr n \<and> n < 2 ^ 63)"
  shows "\<exists>size_str.
           get_file_size env (Str pdf_path) = Inr size_str
           \<and> get_pdf_info env pdf_path =
               Inr [(''pages'', PyNumber 0),
                    (''size'', PyStr size_str),
                    (''title'', PyStr ''Error al leer''),
                    (''author'', PyStr ''Desconocido''),
                    (''has_text'', PyBool False),
                    (''has_images'', PyBool False)]"
proof -
  from assms(2) obtain size_str where "get_file_size env (Str pdf_path) = Inr size_str"
    using get_file_size_returns [of env "Str pdf_path"] by auto
  with assms(1) show ?thesis
    by (simp add: get_pdf_info_def)
qed

theorem get_pdf_info_fallback_witness:
  "get_pdf_info_try ex_os ''in/b.pdf'' = Inl (RuntimeError ''cannot open'')
   \<and> os_path_getsize ex_os ''in/b.pdf'' = Inl OSError
   \<and> get_pdf_info ex_os ''in/b.pdf'' =
       Inr [(''pages'', PyNumber 0),
            (''size'', PyStr ''Desconocido''),
            (''title'', PyStr ''Error al leer''),
            (''author'', PyStr ''Desconocido''),
            (''has_text'', PyBool False),
            (''has_images'', PyBool False)]"
proof -
  have t: "get_pdf_info_try ex_os ''in/b.pdf'' = Inl (RuntimeError ''cannot open'')"
    by (simp add: get_pdf_info_try_def ex_os_def)
  have g: "os_path_getsize ex_os ''in/b.pdf'' = Inl OSError
           \<or> (\<exists>n. os_path_getsize ex_os ''in/b.pdf'' = Inr n \<and> n < 2 ^ 63)"
    by (simp add: ex_os_def)
  have s: "get_file_size ex_os (Str ''in/b.pdf'') = Inr ''Desconocido''"
    by (simp add: get_file_size_def except_OSError_def ex_os_def)
  show ?thesis
    using get_pdf_info_fallback [OF t g] t s by (simp add: ex_os_def)
qed

subsection \<open>generate_output_filename\<close>

lemma rfind_next_le: "rfind_next c p \<le> length p"
  by (simp add: rfind_next_def)

lemma rfind_next_notin: "c \<notin> set p \<Longrightarrow> rfind_next c p = 0"
proof -
  assume "c \<notin> set p"
  then have "takeWhile (\<lambda>x. x \<noteq> c) (rev p) = rev p"
    by auto
  then have "length (takeWhile (\<lambda>x. x \<noteq> c) (rev p)) = length p"
    by (metis length_rev)
  then show ?thesis
    by (simp add: rfind_next_def)
qed

lemma rfind_next_append_notin:
  "c \<notin> set ys \<Longrightarrow> rfind_next c (xs @ ys) = rfind_next c xs"
proof -
  assume "c \<notin> set ys"
  then have "takeWhile (\<lambda>x. x \<noteq> c) (rev ys @ rev xs) = rev ys @ takeWhile (\<lambda>x. x \<noteq> c) (rev xs)"
    by (intro takeWhile_append2) auto
  moreover have "length (takeWhile (\<lambda>x. x \<noteq> c) (rev xs)) \<le> length xs"
    using length_takeWhile_le [of "\<lambda>x. x \<noteq> c" "rev xs"] by simp
  ultimately show ?thesis
    by (simp add: rfind_next_def)
qed

lemma rfind_next_snoc: "rfind_next c (xs @ [c]) = length xs + 1"
  by (simp add: rfind_next_def)

lemma rfind_next_append_sep:
  "c \<notin> set ys \<Longrightarrow> rfind_next c (xs @ c # ys) = length xs + 1"
  using rfind_next_append_notin [of c ys "xs @ [c]"] by (simp add: rfind_next_snoc)

lemma drop_rfind_next_notin: "c \<notin> set (drop (rfind_next c p) p)"
proof -
  have "drop (length p - length (takeWhile (\<lambda>x. x \<noteq> c) (rev p))) p =
        rev (take (length (takeWhile (\<lambda>x. x \<noteq> c) (rev p))) (rev p))"
    by (simp add: take_rev)
  also have "take (length (takeWhile (\<lambda>x. x \<noteq> c) (rev p))) (rev p) = takeWhile (\<lambda>x. x \<noteq> c) (rev p)"
    by (simp add: takeWhile_eq_take[symmetric])
  finally have "drop (rfind_next c p) p = rev (takeWhile (\<lambda>x. x \<noteq> c) (rev p))"
    by (simp add: rfind_next_def)
  then show ?thesis
    using set_takeWhileD [of c "\<lambda>x. x \<noteq> c" "rev p"] by auto
qed

lemma basename_no_sep: "CHR ''/'' \<notin> set (os_path_basename p)"
  by (simp add: os_path_basename_def drop_rfind_next_notin)

lemma splitext_loop_Some:
  "splitext_loop p i k = Some r \<Longrightarrow> r = (take k p, drop k p)"
proof (induction p i k rule: splitext_loop.induct)
  case (1 p filenameIndex dotIndex)
  then show ?case
    by (subst (asm) (2) splitext_loop.simps) (auto split: if_splits)
qed

lemma splitext_cases:
  "os_path_splitext p = (p, []) \<or> (\<exists>k. os_path_splitext p = (take k p, drop k p))"
  by (auto simp: os_path_splitext_def Let_def split: option.splits dest: splitext_loop_Some)

lemma splitext_append: "fst (os_path_splitext p) @ snd (os_path_splitext p) = p"
  using splitext_cases [of p] by auto

lemma splitext_subset: "set (fst (os_path_splitext p)) \<subseteq> set p"
  using splitext_cases [of p] by (auto dest: in_set_takeD)

lemma all_eq_replicate: "(\<forall>x\<in>set xs. x = c) = (xs = replicate (length xs) c)"
  by (induction xs) auto

lemma dirname_cases:
  "os_path_dirname p = []
   \<or> (os_path_dirname p \<noteq> [] \<and> os_path_dirname p = replicate (length (os_path_dirname p)) (CHR ''/''))
   \<or> (os_path_dirname p \<noteq> [] \<and> last (os_path_dirname p) \<noteq> CHR ''/'')"
proof -
  define head where "head = take (rfind_next (CHR ''/'') p) p"
  show ?thesis
  proof (cases "head \<noteq> [] \<and> head \<noteq> replicate (length head) (CHR ''/'')")
    case False
    then have "os_path_dirname p = head"
      by (auto simp: os_path_dirname_def Let_def head_def)
    with False show ?thesis by auto
  next
    case True
    then have d: "os_path_dirname p = rev (dropWhile (\<lambda>x. x = CHR ''/'') (rev head))"
      by (simp add: os_path_dirname_def Let_def head_def rstrip_char_def)
    from True have "\<not> (\<forall>x\<in>set head. x = CHR ''/'')"
      by (simp add: all_eq_replicate)
    then have ne: "dropWhile (\<lambda>x. x = CHR ''/'') (rev head) \<noteq> []"
      by simp
    then have "hd (dropWhile (\<lambda>x. x = CHR ''/'') (rev head)) \<noteq> CHR ''/''"
      using hd_dropWhile [of "\<lambda>x. x = CHR ''/''" "rev head"] by simp
    with ne d show ?thesis
      by (simp add: last_rev)
  qed
qed

lemma join_dirname:
  assumes "CHR ''/'' \<notin> set f"
    and "d = [] \<or> (d \<noteq> [] \<and> d = replicate (length d) (CHR ''/'')) \<or> (d \<noteq> [] \<and> last d \<noteq> CHR ''/'')"
  shows "os_path_dirname (os_path_join d f) = d" and "os_path_basename (os_path_join d f) = f"
proof -
  have nostart: "\<not> str_startswith f ''/''"
    using assms(1) by (cases f) (auto simp: str_startswith_def)
  consider (empty) "d = []"
    | (slashes) "d \<noteq> []" "d = replicate (length d) (CHR ''/'')"
    | (plain) "d \<noteq> []" "last d \<noteq> CHR ''/''"
    using assms(2) by blast
  then have "os_path_dirname (os_path_join d f) = d \<and> os_path_basename (os_path_join d f) = f"
  proof cases
    case empty
    then show ?thesis
      using assms(1) nostart
      by (simp add: os_path_join_def os_path_dirname_def os_path_basename_def rfind_next_notin)
  next
    case slashes
    then obtain n where n: "d = replicate (Suc n) (CHR ''/'')"
      by (metis length_0_conv not0_implies_Suc)
    have dd: "d = replicate n (CHR ''/'') @ [CHR ''/'']"
      unfolding n by (simp add: replicate_append_same)
    have e: "str_endswith d ''/''"
      by (subst dd) (simp add: str_endswith_def)
    have j: "os_path_join d f = d @ f"
      using nostart e by (simp add: os_path_join_def)
    have r: "rfind_next (CHR ''/'') (d @ f) = length d"
      using rfind_next_append_notin [OF assms(1), of d] rfind_next_snoc [of "CHR ''/''" "replicate n (CHR ''/'')"]
      by (simp add: dd)
    show ?thesis
      using slashes by (simp add: j os_path_dirname_def os_path_basename_def r)
  next
    case plain
    then have e: "\<not> str_endswith d ''/''"
      by (cases d rule: rev_cases) (auto simp: str_endswith_def)
    have j: "os_path_join d f = d @ CHR ''/'' # f"
      using nostart e plain by (simp add: os_path_join_def)
    have r: "rfind_next (CHR ''/'') (d @ CHR ''/'' # f) = length d + 1"
      using assms(1) by (rule rfind_next_append_sep)
    have h: "d @ [CHR ''/''] \<noteq> replicate (Suc (length d)) (CHR ''/'')"
    proof
      assume "d @ [CHR ''/''] = replicate (Suc (length d)) (CHR ''/'')"
      then have "d @ [CHR ''/''] = replicate (length d) (CHR ''/'') @ [CHR ''/'']"
        by (simp add: replicate_append_same)
      then have "d = replicate (length d) (CHR ''/'')" by simp
      then have "last d = CHR ''/''"
        using plain(1) by (metis last_replicate length_0_conv)
      with plain(2) show False by simp
    qed
    have s: "rstrip_char (CHR ''/'') (d @ [CHR ''/'']) = d"
      using plain by (cases d rule: rev_cases) (simp_all add: rstrip_char_def)
    show ?thesis
      using h s by (simp add: j os_path_dirname_def os_path_basename_def r Let_def)
  qed
  then show "os_path_dirname (os_path_join d f) = d" and "os_path_basename (os_path_join d f) = f"
    by simp_all
qed

lemma stem_no_sep:
  "CHR ''/'' \<notin> set (fst (os_path_splitext (os_path_basename p)) @ ''.docx'')"
  using splitext_subset [of "os_path_basename p"] basename_no_sep [of p] by auto

text \<open>
  C5. Without an explicit output path (and with an empty one) \<open>generate_output_filename\<close>
  returns a path in the directory of the input whose file name is the stem of the input
  followed by \<open>.docx\<close>, the stem being the input's file name without its extension; a
  non-empty explicit output path is returned unchanged.
\<close>

theorem generate_output_filename_default:
  "os_path_dirname (generate_output_filename input_path None) = os_path_dirname input_path
   \<and> os_path_basename (generate_output_filename input_path None) =
       fst (os_path_splitext (os_path_basename input_path)) @ ''.docx''
   \<and> fst (os_path_splitext (os_path_basename input_path)) @
       snd (os_path_splitext (os_path_basename input_path)) = os_path_basename input_path
   \<and> generate_output_filename input_path (Some []) = generate_output_filename input_path None
   \<and> (out \<noteq> [] \<longrightarrow> generate_output_filename input_path (Some out) = out)"
  using join_dirname [OF stem_no_sep dirname_cases, of input_path input_path]
  by (simp add: generate_output_filename_def Let_def splitext_append)

theorem generate_output_filename_default_witness:
  "generate_output_filename ''docs/report.v2.pdf'' None = ''docs/report.v2.docx''
   \<and> os_path_dirname ''docs/report.v2.docx'' = os_path_dirname ''docs/report.v2.pdf''
   \<and> os_path_basename ''docs/report.v2.docx'' = ''report.v2'' @ ''.docx''
   \<and> ''out.docx'' \<noteq> []
   \<and> generate_output_filename ''docs/report.v2.pdf'' (Some ''out.docx'') = ''out.docx''"
  using generate_output_filename_default [of "''docs/report.v2.pdf''" "''out.docx''"]
  by (simp add: generate_output_filename_def os_path_dirname_def os_path_basename_def
      os_path_splitext_def os_path_join_def rfind_next_def rstrip_char_def str_startswith_def
      str_endswith_def splitext_loop.simps)

subsection \<open>Exit codes\<close>

text \<open>When an exception reaches the handler of a command, in terms of what the body calls.\<close>

lemma convert_try_raises:
  "isl (convert_try env input_file output_file cfg) = os_path_exists (os env) input_file"
  by (simp add: convert_try_def validate_file_PathObj)

lemma batch_try_raises:
  "isl (batch_try env input_dir output_dir cfg) =
     (case glob_pdf env input_dir of
        Inl e \<Rightarrow> True
      | Inr pdf_files \<Rightarrow>
          pdf_files \<noteq> [] \<and> (mkdir env output_dir \<noteq> None \<or> isl (converter_new env cfg)))"
  by (auto simp: batch_try_def Let_def split: sum.splits option.splits)

lemma convert_exit_code:
  "exit_code (convert env input_file output_file cfg) = 1"
  by (simp add: convert_ending)

lemma batch_exit_code:
  "exit_code (fst (batch env input_dir output_dir cfg)) =
     (if isl (batch_try env input_dir output_dir cfg) then 1 else 0)"
  by (auto simp: batch_def batch_try_def Let_def split: sum.splits option.splits)

text \<open>
  C6, as stated, fails: every invocation is to end with exit code 1 or 0. For an input
  file that does not exist, \<open>click\<close> refuses the argument before the body of \<open>convert\<close>
  runs, and the process ends with exit code 2.
\<close>

theorem convert_missing_input_exit_code:
  "os_stat ex_fs ''in/missing.pdf'' = None
   \<and> convert_command ex_fs ex_cli ''in/missing.pdf'' ''out/a.docx'' ex_cfg = 2"
  by (simp add: convert_command_def convert_args_ok_def click_path_def ex_fs_def)

text \<open>
  C6, amended. An invocation of \<open>convert\<close> or \<open>batch\<close> whose arguments \<open>click\<close> refuses
  ends the process with exit code 2. One whose arguments are accepted ends with exit
  code 1 when validation fails (\<open>validate_file\<close> returns \<open>False\<close>) or an exception
  reaches the handler of the command, and with exit code 0 otherwise. For \<open>convert\<close>
  validation fails when the input file is gone and the handler is reached when it is
  there; for \<open>batch\<close> the handler is reached when listing the directory raises, or
  when there are files and creating the output directory or the converter raises.
\<close>

theorem command_exit_codes:
  "convert_command fs env input_file output_file cfg =
     (if \<not> convert_args_ok fs input_file output_file cfg then 2
      else if validate_file (os env) (PathObj input_file) ''.pdf'' = Inr False
              \<or> isl (convert_try env input_file output_file cfg) then 1
      else 0)
   \<and> (validate_file (os env) (PathObj input_file) ''.pdf'' = Inr False) =
       (\<not> os_path_exists (os env) input_file)
   \<and> isl (convert_try env input_file output_file cfg) = os_path_exists (os env) input_file
   \<and> batch_command fs env input_dir output_dir cfg =
     (if \<not> batch_args_ok fs input_dir output_dir cfg then 2
      else if isl (batch_try env input_dir output_dir cfg) then 1
      else 0)
   \<and> isl (batch_try env input_dir output_dir cfg) =
     (case glob_pdf env input_dir of
        Inl e \<Rightarrow> True
      | Inr pdf_files \<Rightarrow>
          pdf_files \<noteq> [] \<and> (mkdir env output_dir \<noteq> None \<or> isl (converter_new env cfg)))"
proof -
  have v: "(validate_file (os env) (PathObj input_file) ''.pdf'' = Inr False) =
             (\<not> os_path_exists (os env) input_file)"
    by (simp add: validate_file_PathObj)
  have c: "convert_command fs env input_file output_file cfg =
     (if \<not> convert_args_ok fs input_file output_file cfg then 2
      else if validate_file (os env) (PathObj input_file) ''.pdf'' = Inr False
              \<or> isl (convert_try env input_file output_file cfg) then 1
      else 0)"
    by (simp add: convert_command_def convert_exit_code v convert_try_raises)
  have b: "batch_command fs env input_dir output_dir cfg =
     (if \<not> batch_args_ok fs input_dir output_dir cfg then 2
      else if isl (batch_try env input_dir output_dir cfg) then 1
      else 0)"
    by (simp add: batch_command_def batch_exit_code)
  show ?thesis
    using v c b convert_try_raises [of env input_file output_file cfg]
      batch_try_raises [of env input_dir output_dir cfg]
    by (intro conjI)
qed

theorem command_exit_codes_witness:
  "convert_args_ok ex_fs ''in/a.pdf'' ''out/a.docx'' ex_cfg
   \<and> convert_command ex_fs ex_cli ''in/a.pdf'' ''out/a.docx'' ex_cfg = 1
   \<and> batch_args_ok ex_fs ''in'' ''out'' ex_cfg
   \<and> batch_command ex_fs ex_cli ''in'' ''out'' ex_cfg = 0
   \<and> batch_command ex_fs ex_cli ''in/a.pdf'' ''out'' ex_cfg = 2
   \<and> batch_args_ok ex_fs ''in'' ''elsewhere'' ex_cfg
   \<and> batch_command ex_fs (ex_cli\<lparr>mkdir := (\<lambda>p. Some OSError)\<rparr>) ''in'' ''elsewhere'' ex_cfg = 1"
  using command_exit_codes
      [where fs = ex_fs and env = ex_cli and input_file = "''in/a.pdf''"
         and output_file = "''out/a.docx''" and cfg = ex_cfg and input_dir = "''in''"
         and output_dir = "''out''"]
    command_exit_codes
      [where fs = ex_fs and env = ex_cli and input_file = "''in/a.pdf''"
         and output_file = "''out/a.docx''" and cfg = ex_cfg and input_dir = "''in/a.pdf''"
         and output_dir = "''out''"]
    command_exit_codes
      [where fs = ex_fs and env = "ex_cli\<lparr>mkdir := (\<lambda>p. Some OSError)\<rparr>"
         and input_file = "''in/a.pdf''" and output_file = "''out/a.docx''" and cfg = ex_cfg
         and input_dir = "''in''" and output_dir = "''elsewhere''"]
  by (simp add: convert_args_ok_def batch_args_ok_def click_path_def click_choice_def ex_fs_def
      ex_cli_def ex_os_def ex_cfg_def)

subsection \<open>The loop of batch\<close>

lemma process_file_converter:
  "converter (process_file env output_dir n (i, pdf_file) st) =
     snd (converter_convert env (converter st) pdf_file (output_file_for output_dir pdf_file))"
  by (simp add: process_file_def Let_def split: prod.splits sum.splits)

lemma process_file_successful:
  "successful (process_file env output_dir n (i, pdf_file) st) =
     successful st +
     (if fst (converter_convert env (converter st) pdf_file (output_file_for output_dir pdf_file))
           = Inr True
      then 1 else 0)"
  by (simp add: process_file_def Let_def split: prod.splits sum.splits)

lemma process_file_failed:
  "failed (process_file env output_dir n (i, pdf_file) st) =
     failed st +
     (if fst (converter_convert env (converter st) pdf_file (output_file_for output_dir pdf_file))
           = Inr True
      then 0 else 1)"
  by (auto simp: process_file_def Let_def split: prod.splits sum.splits)

lemma process_file_conversion_events:
  "filter conversion_event (events (process_file env output_dir n (i, pdf_file) st)) =
     filter conversion_event (events st) @
     [ConvertBegin pdf_file (output_file_for output_dir pdf_file),
      ConvertEnd pdf_file
        (fst (converter_convert env (converter st) pdf_file (output_file_for output_dir pdf_file)))]"
  by (simp add: process_file_def Let_def split: prod.splits sum.splits)

lemma begun_append: "begun (evs @ evs') = begun evs @ begun evs'"
  by (induction evs rule: begun.induct) simp_all

lemma process_file_begun:
  "begun (events (process_file env output_dir n (i, pdf_file) st)) = begun (events st) @ [pdf_file]"
  by (simp add: process_file_def Let_def begun_append split: prod.splits sum.splits)

lemma batch_loop_successful:
  "successful (batch_loop env output_dir n (enumerate k pdf_files) st) =
     successful st +
     length (filter (\<lambda>r. r = Inr True) (run_outcomes env output_dir pdf_files (converter st)))"
proof (induction pdf_files arbitrary: k st)
  case Nil
  show ?case by simp
next
  case (Cons pdf_file rest)
  show ?case
    by (simp add: Cons.IH process_file_converter process_file_successful)
qed

lemma batch_loop_failed:
  "failed (batch_loop env output_dir n (enumerate k pdf_files) st) =
     failed st +
     length (filter (\<lambda>r. r \<noteq> Inr True) (run_outcomes env output_dir pdf_files (converter st)))"
proof (induction pdf_files arbitrary: k st)
  case Nil
  show ?case by simp
next
  case (Cons pdf_file rest)
  show ?case
    by (simp add: Cons.IH process_file_converter process_file_failed)
qed

lemma batch_loop_conversion_events:
  "filter conversion_event (events (batch_loop env output_dir n (enumerate k pdf_files) st)) =
     filter conversion_event (events st) @
     concat (map (\<lambda>(pdf_file, r). [ConvertBegin pdf_file (output_file_for output_dir pdf_file),
                                   ConvertEnd pdf_file r])
               (zip pdf_files (run_outcomes env output_dir pdf_files (converter st))))"
proof (induction pdf_files arbitrary: k st)
  case Nil
  show ?case by simp
next
  case (Cons pdf_file rest)
  show ?case
    by (simp add: Cons.IH process_file_converter process_file_conversion_events)
qed

lemma batch_loop_begun:
  "begun (events (batch_loop env output_dir n (enumerate k pdf_files) st)) =
     begun (events st) @ pdf_files"
proof (induction pdf_files arbitrary: k st)
  case Nil
  show ?case by simp
next
  case (Cons pdf_file rest)
  show ?case
    by (simp add: Cons.IH process_file_begun)
qed

lemma length_run_outcomes: "length (run_outcomes env output_dir pdf_files c) = length pdf_files"
  by (induction pdf_files arbitrary: c) simp_all

lemma batch_setup_ok:
  assumes "glob_pdf env input_dir = Inr pdf_files" and "pdf_files \<noteq> []"
    and "mkdir env output_dir = None" and "converter_new env cfg = Inr c"
  shows "batch env input_dir output_dir cfg =
           (Returned,
            events (batch_run env output_dir pdf_files c) @
            [Summary (length pdf_files) (successful (batch_run env output_dir pdf_files c))
               (failed (batch_run env output_dir pdf_files c))])"
  using assms by (simp add: batch_def batch_try_def Let_def)

text \<open>
  C10. After the loop of \<open>batch\<close> the two counters add up to the number of PDF
  files found, and one round of the loop adds one to exactly one of them.
\<close>

theorem batch_counters:
  "successful (batch_run env output_dir pdf_files c) + failed (batch_run env output_dir pdf_files c)
     = length pdf_files
   \<and> ((successful (process_file env output_dir n (i, pdf_file) st) = successful st + 1
        \<and> failed (process_file env output_dir n (i, pdf_file) st) = failed st)
      \<or> (successful (process_file env output_dir n (i, pdf_file) st) = successful st
        \<and> failed (process_file env output_dir n (i, pdf_file) st) = failed st + 1))"
proof
  have "length (filter (\<lambda>r. r = Inr True) (run_outcomes env output_dir pdf_files c)) +
        length (filter (\<lambda>r. r \<noteq> Inr True) (run_outcomes env output_dir pdf_files c)) =
        length (run_outcomes env output_dir pdf_files c)"
    by (rule sum_length_filter_compl)
  then show "successful (batch_run env output_dir pdf_files c) +
      failed (batch_run env output_dir pdf_files c) = length pdf_files"
    by (simp add: batch_run_def batch_loop_successful batch_loop_failed length_run_outcomes)
next
  show "(successful (process_file env output_dir n (i, pdf_file) st) = successful st + 1
        \<and> failed (process_file env output_dir n (i, pdf_file) st) = failed st)
      \<or> (successful (process_file env output_dir n (i, pdf_file) st) = successful st
        \<and> failed (process_file env output_dir n (i, pdf_file) st) = failed st + 1)"
    by (simp add: process_file_successful process_file_failed)
qed

lemma failures_split:
  "length (filter (\<lambda>r. r \<noteq> Inr True) rs) =
     length (filter raised rs) + length (filter (\<lambda>r. r = Inr False) rs)"
proof (induction rs)
  case Nil
  show ?case by simp
next
  case (Cons r rs)
  show ?case
  proof (cases r)
    case (Inl e)
    with Cons.IH show ?thesis by simp
  next
    case (Inr b)
    with Cons.IH show ?thesis by (cases b) simp_all
  qed
qed

lemma process_file_exception:
  assumes "fst (converter_convert env (converter st) pdf_file (output_file_for output_dir pdf_file)) = Inl e"
  shows "failed (process_file env output_dir n (i, pdf_file) st) = failed st + 1"
    and "successful (process_file env output_dir n (i, pdf_file) st) = successful st"
    and "last (events (process_file env output_dir n (i, pdf_file) st)) = PrintError e"
  using assms by (auto simp: process_file_def Let_def split: prod.splits sum.splits)

text \<open>
  C7. In batch mode an exception raised while one file is converted is caught and
  counted as a failure, and the remaining files are processed: once the files are
  listed and the converter is built, \<open>batch\<close> returns, a conversion was begun for
  every file, and the files counted as failed are those whose conversion raised or
  returned \<open>False\<close>.
\<close>

theorem batch_exception_caught:
  assumes "glob_pdf env input_dir = Inr pdf_files" and "pdf_files \<noteq> []"
    and "mkdir env output_dir = None" and "converter_new env cfg = Inr c"
  shows "fst (batch env input_dir output_dir cfg) = Returned
     \<and> begun (snd (batch env input_dir output_dir cfg)) = pdf_files
     \<and> failed (batch_run env output_dir pdf_files c) =
         length (filter raised (run_outcomes env output_dir pdf_files c)) +
         length (filter (\<lambda>r. r = Inr False) (run_outcomes env output_dir pdf_files c))
     \<and> (fst (converter_convert env (converter st) pdf_file (output_file_for output_dir pdf_file))
           = Inl e \<longrightarrow>
         failed (process_file env output_dir n (i, pdf_file) st) = failed st + 1
         \<and> successful (process_file env output_dir n (i, pdf_file) st) = successful st
         \<and> last (events (process_file env output_dir n (i, pdf_file) st)) = PrintError e)"
proof -
  have b: "batch env input_dir output_dir cfg =
           (Returned,
            events (batch_run env output_dir pdf_files c) @
            [Summary (length pdf_files) (successful (batch_run env output_dir pdf_files c))
               (failed (batch_run env output_dir pdf_files c))])"
    using assms by (rule batch_setup_ok)
  have "begun (events (batch_run env output_dir pdf_files c)) = pdf_files"
    by (simp add: batch_run_def batch_loop_begun)
  then have "begun (snd (batch env input_dir output_dir cfg)) = pdf_files"
    by (simp add: b begun_append)
  moreover have "failed (batch_run env output_dir pdf_files c) =
         length (filter raised (run_outcomes env output_dir pdf_files c)) +
         length (filter (\<lambda>r. r = Inr False) (run_outcomes env output_dir pdf_files c))"
    by (simp add: batch_run_def batch_loop_failed failures_split)
  ultimately show ?thesis
    using b process_file_exception [of env st pdf_file output_dir e n i] by simp
qed

theorem batch_exception_caught_witness:
  "glob_pdf ex_cli ''in'' = Inr [''in/a.pdf'', ''in/b.pdf'', ''in/c.pdf'']
   \<and> mkdir ex_cli ''out'' = None
   \<and> converter_new ex_cli ex_cfg = Inr 0
   \<and> fst (converter_convert ex_cli 0 ''in/a.pdf'' (output_file_for ''out'' ''in/a.pdf''))
       = Inl (RuntimeError ''damaged'')
   \<and> fst (batch ex_cli ''in'' ''out'' ex_cfg) = Returned
   \<and> begun (snd (batch ex_cli ''in'' ''out'' ex_cfg)) = [''in/a.pdf'', ''in/b.pdf'', ''in/c.pdf'']
   \<and> failed (batch_run ex_cli ''out'' [''in/a.pdf'', ''in/b.pdf'', ''in/c.pdf''] 0) = 2
   \<and> failed (process_file ex_cli ''out'' 3 (1, ''in/a.pdf'')
               \<lparr>converter = 0, successful = 0, failed = 0, events = []\<rparr>) = 1"
  using batch_exception_caught
    [where env = ex_cli and input_dir = "''in''" and output_dir = "''out''" and cfg = ex_cfg
       and pdf_files = "[''in/a.pdf'', ''in/b.pdf'', ''in/c.pdf'']" and c = 0
       and st = "\<lparr>converter = 0, successful = 0, failed = 0, events = []\<rparr>"
       and pdf_file = "''in/a.pdf''" and e = "RuntimeError ''damaged''" and n = 3 and i = 1]
  by (simp add: ex_cli_def ex_convert_def)

text \<open>
  C8. Batch mode converts the files one after the other in the listed order: the
  conversion events of the run are, file by file, the begin of its conversion followed
  by its end (with the result or the exception), before the next file begins.
\<close>

theorem batch_sequential:
  assumes "glob_pdf env input_dir = Inr pdf_files" and "pdf_files \<noteq> []"
    and "mkdir env output_dir = None" and "converter_new env cfg = Inr c"
  shows "filter conversion_event (snd (batch env input_dir output_dir cfg)) =
           concat (map (\<lambda>(pdf_file, r). [ConvertBegin pdf_file (output_file_for output_dir pdf_file),
                                         ConvertEnd pdf_file r])
                     (zip pdf_files (run_outcomes env output_dir pdf_files c)))
         \<and> length (run_outcomes env output_dir pdf_files c) = length pdf_files"
proof -
  have b: "batch env input_dir output_dir cfg =
           (Returned,
            events (batch_run env output_dir pdf_files c) @
            [Summary (length pdf_files) (successful (batch_run env output_dir pdf_files c))
               (failed (batch_run env output_dir pdf_files c))])"
    using assms by (rule batch_setup_ok)
  show ?thesis
    by (simp add: b batch_run_def batch_loop_conversion_events length_run_outcomes)
qed

text \<open>The output files of the example, computed part by part.\<close>

lemma path_stem_ex:
  "path_stem ''in/a.pdf'' = ''a''" "path_stem ''in/b.pdf'' = ''b''" "path_stem ''in/c.pdf'' = ''c''"
  by (simp_all add: path_stem_def path_name_def path_tail_def splitroot_def rfind_next_def)

lemma os_path_join_ex:
  "os_path_join ''out'' ''a.docx'' = ''out/a.docx''"
  "os_path_join ''out'' ''b.docx'' = ''out/b.docx''"
  "os_path_join ''out'' ''c.docx'' = ''out/c.docx''"
  by (simp_all add: os_path_join_def str_startswith_def str_endswith_def)

lemma path_str_ex:
  "path_str ''out/a.docx'' = ''out/a.docx''"
  "path_str ''out/b.docx'' = ''out/b.docx''"
  "path_str ''out/c.docx'' = ''out/c.docx''"
  by (simp_all add: path_str_def format_parts_def path_root_def path_tail_def splitroot_def)

lemma output_file_for_ex:
  "output_file_for ''out'' ''in/a.pdf'' = ''out/a.docx''"
  "output_file_for ''out'' ''in/b.pdf'' = ''out/b.docx''"
  "output_file_for ''out'' ''in/c.pdf'' = ''out/c.docx''"
  by (simp_all add: output_file_for_def path_div_def path_stem_ex os_path_join_ex path_str_ex)

theorem batch_sequential_witness:
  "glob_pdf ex_cli ''in'' = Inr [''in/a.pdf'', ''in/b.pdf'', ''in/c.pdf'']
   \<and> mkdir ex_cli ''out'' = None
   \<and> converter_new ex_cli ex_cfg = Inr 0
   \<and> filter conversion_event (snd (batch ex_cli ''in'' ''out'' ex_cfg)) =
       [ConvertBegin ''in/a.pdf'' ''out/a.docx'', ConvertEnd ''in/a.pdf'' (Inl (RuntimeError ''damaged'')),
        ConvertBegin ''in/b.pdf'' ''out/b.docx'', ConvertEnd ''in/b.pdf'' (Inr True),
        ConvertBegin ''in/c.pdf'' ''out/c.docx'', ConvertEnd ''in/c.pdf'' (Inr False)]"
  using batch_sequential
    [where env = ex_cli and input_dir = "''in''" and output_dir = "''out''" and cfg = ex_cfg
       and pdf_files = "[''in/a.pdf'', ''in/b.pdf'', ''in/c.pdf'']" and c = 0]
  by (simp add: ex_cli_def ex_convert_def output_file_for_ex)

end
